theory Spec2Isabelle
  imports Complex_Main "HOL-Library.Sublist"
begin

section \<open>Values, errors and the page state\<close>

text \<open>
  The development embeds \<^verbatim>\<open>operations.py\<close>: the range normaliser
  \<^verbatim>\<open>ensure_normal_range\<close>, the model function \<^verbatim>\<open>fit_function\<close> and the two
  controllers \<^verbatim>\<open>fit_curve\<close> (button "Fit Exponential") and \<^verbatim>\<open>fake_fit_curve\<close>
  (toolbar "Reset").

  Numbers are modelled as reals: a Python float or numpy scalar is represented by the real
  it denotes, so comparisons and arithmetic are exact and NaN, the infinities and the
  negative zero do not occur among the inputs (a zero is the positive zero). Where the
  source divides by a fitted value that may be zero, numpy does not raise; the model
  writes out the value numpy computes there, marking a non-finite one explicitly, rather
  than using the value HOL gives to a division by zero.
\<close>

datatype err = IndexError | TypeError | NameError | OptimizerError

datatype outcome = Returned | Raised err

type_synonym rect = "real \<times> real \<times> real \<times> real"

text \<open>
  What \<^verbatim>\<open>window.range_data\<close> and \<^verbatim>\<open>window.old_range_data\<close> can hold.
  The range callback (the script returned by \<^verbatim>\<open>callback_upadte_range\<close>) stores a fresh
  JavaScript array of the four attributes \<^verbatim>\<open>x0, x1, y0, y1\<close>, each as the decimal text of
  a number; an entry is represented by the number \<^verbatim>\<open>float()\<close> makes of it. The array
  carries an object identity, because the proxy of a JavaScript object compares by identity:
  two arrays delivered by two range events are different objects even when their entries agree.
  \<^verbatim>\<open>fake_fit_curve\<close> stores a Python list of four numbers, and \<^verbatim>\<open>fit_curve\<close> stores
  \<^verbatim>\<open>None\<close> when the attribute is missing.
\<close>

datatype pyval = PyNone | JsArray nat rect | PyList rect

text \<open>
  The text written into a result area: \<^verbatim>\<open>"%.4f" % v\<close> is represented by the format and
  its argument. \<open>FmtNonFinite\<close> is the rendering of a non-finite number (the quotient
  \<^verbatim>\<open>1.0 / tau\<close> at \<^verbatim>\<open>tau == 0\<close>, which numpy evaluates to an infinity).
\<close>

datatype dom_text = Blank | Fmt4 real | FmtNonFinite

text \<open>The arguments \<^verbatim>\<open>my_plot\<close> draws from; the labels and the title keep their defaults
  in every call made by the two controllers.\<close>

record plot =
  circle_x :: "real list"
  circle_y :: "real list"
  x_for_line :: "real list"
  y_for_line :: "real option list"
  x_range :: "(real \<times> real) option"
  y_range :: "(real \<times> real) option"

text \<open>
  The state the controllers read and write: the two attributes of \<^verbatim>\<open>window\<close>
  (\<open>None\<close> when \<^verbatim>\<open>hasattr\<close> is false), the globals \<^verbatim>\<open>xList, yList\<close> (assigned together
  by every loader, \<open>None\<close> before the first load), the \<^verbatim>\<open>display\<close> style of
  \<^verbatim>\<open>hint-area\<close>, the three result areas, the embedded graph and the alerts shown so far.
\<close>

record state =
  range_data :: "pyval option"
  old_range_data :: "pyval option"
  series :: "(real list \<times> real list) option"
  hint_display :: string
  result_area_1 :: dom_text
  result_area_2 :: dom_text
  result_area_3 :: dom_text
  graph :: "plot option"
  alerts :: "string list"

section \<open>The helpers\<close>

text \<open>\<^verbatim>\<open>ensure_normal_range\<close>, lines 100-120: two independent conditional swaps.\<close>

definition ensure_normal_range :: "real \<Rightarrow> real \<Rightarrow> real \<Rightarrow> real \<Rightarrow> rect" where
  "ensure_normal_range x0 x1 y0 y1 =
     (let (x0', x1') = (if x0 > x1 then (x1, x0) else (x0, x1));
          (y0', y1') = (if y0 > y1 then (y1, y0) else (y0, y1))
      in (x0', x1', y0', y1'))"

text \<open>
  \<^verbatim>\<open>fit_function(x, *p)\<close>, line 97: \<^verbatim>\<open>p[0] * np.exp(-x / p[1]) + p[2]\<close>, applied to the whole
  array \<open>x\<close>. The three subscripts are read on every call, so a parameter tuple with fewer
  than three entries raises \<^verbatim>\<open>IndexError\<close>. Under numpy a zero \<^verbatim>\<open>p[1]\<close> does not raise:
  for \<open>x > 0\<close> the quotient \<^verbatim>\<open>-x / p[1]\<close> is minus infinity, its exponential is zero and the
  entry is the offset \<^verbatim>\<open>p[2]\<close>; for \<open>x = 0\<close> the quotient is NaN and for \<open>x < 0\<close> the
  exponential is infinite, so the entry is not finite (\<open>None\<close>).
\<close>

definition model_value :: "real \<Rightarrow> real \<Rightarrow> real \<Rightarrow> real \<Rightarrow> real option" where
  "model_value a tau c x =
     (if tau = 0 then (if 0 < x then Some c else None)
      else Some (a * exp (- x / tau) + c))"

definition fit_function :: "real list \<Rightarrow> real list \<Rightarrow> err + real option list" where
  "fit_function x p =
     (if length p < 3 then Inl IndexError
      else Inr (map (model_value (p ! 0) (p ! 1) (p ! 2)) x))"

text \<open>\<^verbatim>\<open>int(v)\<close> on a float: truncation towards zero.\<close>

definition py_int :: "real \<Rightarrow> int" where
  "py_int v = (if 0 \<le> v then \<lfloor>v\<rfloor> else \<lceil>v\<rceil>)"

text \<open>The comparison of lines 139-142: the four bounds agree after \<^verbatim>\<open>int()\<close>.\<close>

definition same_int_bounds :: "rect \<Rightarrow> rect \<Rightarrow> bool" where
  "same_int_bounds r f =
     (case r of (x0, x1, y0, y1) \<Rightarrow> case f of (fx0, fx1, fy0, fy1) \<Rightarrow>
        py_int x0 = py_int fx0 \<and> py_int x1 = py_int fx1 \<and>
        py_int y0 = py_int fy0 \<and> py_int y1 = py_int fy1)"

text \<open>Line 138: \<^verbatim>\<open>xList[0], xList[-1], yList[0], yList[-1]\<close>, read on non-empty arrays.\<close>

definition data_extent :: "real list \<Rightarrow> real list \<Rightarrow> rect" where
  "data_extent xList yList = (hd xList, last xList, hd yList, last yList)"

text \<open>The four reads \<^verbatim>\<open>float(value_list[0]), ..., float(value_list[3])\<close> (lines 137 and 195);
  subscripting \<^verbatim>\<open>None\<close> raises \<^verbatim>\<open>TypeError\<close>.\<close>

fun float_bounds :: "pyval \<Rightarrow> err + rect" where
  "float_bounds PyNone = Inl TypeError"
| "float_bounds (JsArray i r) = Inr r"
| "float_bounds (PyList r) = Inr r"

text \<open>
  The selection loop, lines 146-155 and 197-206 (the same text in both controllers):
  \<^verbatim>\<open>for i in range(len(xList))\<close> reads \<^verbatim>\<open>xList[i]\<close> and \<^verbatim>\<open>yList[i]\<close>, skips the point when
  \<^verbatim>\<open>x < x0 or x > x1\<close>, skips it when \<^verbatim>\<open>y < y0 or y > y1\<close>, and appends it to both selection
  lists otherwise. A \<^verbatim>\<open>yList\<close> shorter than \<^verbatim>\<open>xList\<close> raises \<^verbatim>\<open>IndexError\<close> at the first
  missing index.
\<close>

fun select_points ::
  "rect \<Rightarrow> real list \<Rightarrow> real list \<Rightarrow> real list \<Rightarrow> real list \<Rightarrow> err + (real list \<times> real list)"
where
  "select_points b [] ys x_sel y_sel = Inr (x_sel, y_sel)"
| "select_points b (x # xs) [] x_sel y_sel = Inl IndexError"
| "select_points (x0, x1, y0, y1) (x # xs) (y # ys) x_sel y_sel =
     (if x < x0 \<or> x > x1 then select_points (x0, x1, y0, y1) xs ys x_sel y_sel
      else if y < y0 \<or> y > y1 then select_points (x0, x1, y0, y1) xs ys x_sel y_sel
      else select_points (x0, x1, y0, y1) xs ys (x_sel @ [x]) (y_sel @ [y]))"

text \<open>\<^verbatim>\<open>my_plot\<close>, lines 17-48: replaces the content of \<^verbatim>\<open>graph-area\<close> by a new figure.\<close>

definition my_plot ::
  "real list \<Rightarrow> real list \<Rightarrow> real list \<Rightarrow> real option list \<Rightarrow>
   (real \<times> real) option \<Rightarrow> (real \<times> real) option \<Rightarrow> state \<Rightarrow> state"
where
  "my_plot x y xl yl xr yr s =
     s\<lparr>graph := Some \<lparr>circle_x = x, circle_y = y, x_for_line = xl, y_for_line = yl,
                       x_range = xr, y_range = yr\<rparr>\<rparr>"

definition alert :: "string \<Rightarrow> state \<Rightarrow> state" where
  "alert msg s = s\<lparr>alerts := alerts s @ [msg]\<rparr>"

section \<open>The optimizer and the publishing step\<close>

text \<open>
  \<^verbatim>\<open>scipy.optimize.curve_fit\<close> is not part of the repository. It is a parameter of the
  controllers: a function of the model function, the selected abscissae and ordinates and
  the initial guess \<^verbatim>\<open>p0\<close>, which either raises or returns the optimized parameters
  \<^verbatim>\<open>popt\<close> and the indicator \<^verbatim>\<open>ier\<close> (the other three outputs are not used).
\<close>

type_synonym optimizer =
  "(real list \<Rightarrow> real list \<Rightarrow> err + real option list) \<Rightarrow>
   real list \<Rightarrow> real list \<Rightarrow> real list \<Rightarrow> err + (real list \<times> int)"

definition rate_text :: "real \<Rightarrow> dom_text" where
  "rate_text tau = (if tau = 0 then FmtNonFinite else Fmt4 (1 / tau))"

text \<open>
  Lines 164-172 and 215-223 (the same text but for the two range arguments of the plot):
  read \<^verbatim>\<open>tau = popt[1]\<close>, set the display of the hint, write the three result areas, then
  evaluate \<^verbatim>\<open>fit_function(x_list_selection, popt[0], popt[1], popt[2])\<close> and redraw. The
  subscript \<^verbatim>\<open>popt[2]\<close> is evaluated after the three areas are written.
\<close>

definition publish ::
  "state \<Rightarrow> real list \<Rightarrow> real list \<Rightarrow> real list \<Rightarrow> real list \<Rightarrow> int \<Rightarrow>
   (real \<times> real) option \<Rightarrow> (real \<times> real) option \<Rightarrow> state \<times> outcome"
where
  "publish s xs ys x_sel popt ier xr yr =
     (if length popt < 2 then (s, Raised IndexError)
      else
        let tau = popt ! 1;
            s1 = s\<lparr>hint_display := (if ier \<noteq> 1 then '''' else ''none'')\<rparr>;
            s2 = s1\<lparr>result_area_1 := Fmt4 tau\<rparr>;
            s3 = s2\<lparr>result_area_2 := Fmt4 (tau * ln 2)\<rparr>;
            s4 = s3\<lparr>result_area_3 := rate_text tau\<rparr>
        in if length popt < 3 then (s4, Raised IndexError)
           else (case fit_function x_sel [popt ! 0, popt ! 1, popt ! 2] of
                   Inl e \<Rightarrow> (s4, Raised e)
                 | Inr yl \<Rightarrow> (my_plot xs ys x_sel yl xr yr s4, Returned)))"

section \<open>The two controllers\<close>

text \<open>
  \<^verbatim>\<open>fake_fit_curve\<close>, lines 123-172. Line 161 of the source carries a doubled comma
  (\<^verbatim>\<open>..., ,min(y_list_selection)]\<close>); the initial guess is read as the three-entry list
  that line spells out: first selected ordinate, span of the selected abscissae, least
  selected ordinate.
\<close>

definition fake_fit_curve :: "optimizer \<Rightarrow> state \<Rightarrow> state \<times> outcome" where
  "fake_fit_curve curve_fit s =
     (case range_data s of
        None \<Rightarrow> (alert ''Please select a certain range of data firstly'' s, Returned)
      | Some _ \<Rightarrow>
     (case old_range_data s of
        None \<Rightarrow> (s, Returned)
      | Some old_value_list \<Rightarrow>
     (case float_bounds old_value_list of
        Inl e \<Rightarrow> (s, Raised e)
      | Inr (x0, x1, y0, y1) \<Rightarrow>
     (case series s of
        None \<Rightarrow> (s, Raised NameError)
      | Some (xList, yList) \<Rightarrow>
        if xList = [] \<or> yList = [] then (s, Raised IndexError)
        else
          let f = data_extent xList yList in
          if same_int_bounds (x0, x1, y0, y1) f then (s, Returned)
          else
            let s1 = s\<lparr>old_range_data := Some (PyList f)\<rparr> in
            (case select_points (ensure_normal_range x0 x1 y0 y1) xList yList [] [] of
               Inl e \<Rightarrow> (s1, Raised e)
             | Inr (x_sel, y_sel) \<Rightarrow>
                 if length x_sel = 0 then (s1, Returned)
                 else
                   let p0 = [hd y_sel, last x_sel - hd x_sel, min_list y_sel] in
                   (case curve_fit fit_function x_sel y_sel p0 of
                      Inl e \<Rightarrow> (s1, Raised e)
                    | Inr (popt, ier) \<Rightarrow>
                        publish s1 xList yList x_sel popt ier None None))))))"

text \<open>\<^verbatim>\<open>fit_curve\<close>, lines 175-223.\<close>

definition fit_curve :: "optimizer \<Rightarrow> state \<Rightarrow> state \<times> outcome" where
  "fit_curve curve_fit s =
     (case range_data s of
        None \<Rightarrow> (alert ''Please select a certain range of data firstly'' s, Returned)
      | Some value_list \<Rightarrow>
        let s0 = (case old_range_data s of
                    None \<Rightarrow> s\<lparr>old_range_data := Some PyNone\<rparr>
                  | Some _ \<Rightarrow> s)
        in if old_range_data s0 = Some value_list then (s0, Returned)
        else
          let s1 = s0\<lparr>old_range_data := Some value_list\<rparr> in
          (case float_bounds value_list of
             Inl e \<Rightarrow> (s1, Raised e)
           | Inr (a0, a1, b0, b1) \<Rightarrow>
          (case ensure_normal_range a0 a1 b0 b1 of (x0, x1, y0, y1) \<Rightarrow>
          (case series s1 of
             None \<Rightarrow> (s1, Raised NameError)
           | Some (xList, yList) \<Rightarrow>
          (case select_points (x0, x1, y0, y1) xList yList [] [] of
             Inl e \<Rightarrow> (s1, Raised e)
           | Inr (x_sel, y_sel) \<Rightarrow>
               if length x_sel = 0
               then (alert ''Please select a certain area containing some valid data'' s1,
                     Returned)
               else
                 let p0 = [hd y_sel, last x_sel - hd x_sel] in
                 (case curve_fit fit_function x_sel y_sel p0 of
                    Inl e \<Rightarrow> (s1, Raised e)
                  | Inr (popt, ier) \<Rightarrow>
                      publish s1 xList yList x_sel popt ier
                        (Some (x0, x1)) (Some (y0, y1))))))))"

section \<open>The selection as the specification words it, and sample inputs\<close>

text \<open>
  The specification of the selection filter: a sample is kept iff it lies in the closed
  rectangle, and the kept samples stay in the order of the series. This definition follows
  the specification; \<open>select_points\<close> above follows the source, and the two are compared below.
\<close>

definition in_rect :: "rect \<Rightarrow> real \<times> real \<Rightarrow> bool" where
  "in_rect b p =
     (case b of (xmin, xmax, ymin, ymax) \<Rightarrow> case p of (x, y) \<Rightarrow>
        xmin \<le> x \<and> x \<le> xmax \<and> ymin \<le> y \<and> y \<le> ymax)"

definition select_spec :: "rect \<Rightarrow> (real \<times> real) list \<Rightarrow> (real \<times> real) list" where
  "select_spec b samples = filter (in_rect b) samples"

text \<open>
  Two optimizers for concrete runs: one that returns a fixed answer, and one that evaluates
  the model function at the initial guess, as a least-squares routine does before its first
  step, and then reports the guess itself as converged.
\<close>

definition const_optimizer :: "real list \<Rightarrow> int \<Rightarrow> optimizer" where
  "const_optimizer popt ier f x y p0 = Inr (popt, ier)"

definition probe_optimizer :: optimizer where
  "probe_optimizer f x y p0 = (case f x p0 of Inl e \<Rightarrow> Inl e | Inr _ \<Rightarrow> Inr (p0, 1))"

text \<open>
  A page holding the decay series \<open>x = [0..5]\<close>, \<open>y = [100, 60, 37, 22, 13, 8]\<close> with an
  earlier fit on display (\<open>tau = 1.6\<close>, no warning), for given values of the two window
  attributes.
\<close>

definition sample_page :: "pyval option \<Rightarrow> pyval option \<Rightarrow> state" where
  "sample_page rd old =
     \<lparr>range_data = rd, old_range_data = old,
      series = Some ([0, 1, 2, 3, 4, 5], [100, 60, 37, 22, 13, 8]),
      hint_display = ''none'',
      result_area_1 = Fmt4 (8 / 5), result_area_2 = Fmt4 (8 / 5 * ln 2),
      result_area_3 = Fmt4 (5 / 8),
      graph = None, alerts = []\<rparr>"

section \<open>Range normalisation\<close>

text \<open>
  Claim C8. For all real inputs \<open>ensure_normal_range\<close> returns a rectangle with
  \<open>xmin \<le> xmax\<close> and \<open>ymin \<le> ymax\<close>; each axis pair of the result is the input pair,
  possibly swapped; normalising twice is the same as normalising once; and an input that
  already has \<open>x0 \<le> x1\<close> and \<open>y0 \<le> y1\<close> is returned as it is.
\<close>

theorem ensure_normal_range_normalises:
  "(case ensure_normal_range x0 x1 y0 y1 of (a0, a1, b0, b1) \<Rightarrow>
      a0 \<le> a1 \<and> b0 \<le> b1 \<and>
      ((a0, a1) = (x0, x1) \<or> (a0, a1) = (x1, x0)) \<and>
      ((b0, b1) = (y0, y1) \<or> (b0, b1) = (y1, y0)) \<and>
      ensure_normal_range a0 a1 b0 b1 = (a0, a1, b0, b1)) \<and>
   (x0 \<le> x1 \<and> y0 \<le> y1 \<longrightarrow> ensure_normal_range x0 x1 y0 y1 = (x0, x1, y0, y1))"
  by (auto simp: ensure_normal_range_def)

theorem ensure_normal_range_normalises_witness:
  "(2::real) \<le> 5 \<and> (0::real) \<le> 100 \<and> ensure_normal_range 2 5 0 100 = (2, 5, 0, 100)"
  using ensure_normal_range_normalises [of 2 5 0 100] by simp

section \<open>The selection loop\<close>

text \<open>The loop with arbitrary accumulators: it appends the specified selection to both.\<close>

lemma select_points_acc:
  "length xs \<le> length ys \<Longrightarrow>
   select_points b xs ys ax ay =
     Inr (ax @ map fst (select_spec b (zip xs ys)), ay @ map snd (select_spec b (zip xs ys)))"
proof (induction b xs ys ax ay rule: select_points.induct)
  case (1 b ys x_sel y_sel)
  then show ?case by (simp add: select_spec_def)
next
  case (2 b x xs x_sel y_sel)
  then show ?case by simp
next
  case (3 x0 x1 y0 y1 x xs y ys x_sel y_sel)
  then show ?case by (auto simp: select_spec_def in_rect_def)
qed

lemma select_points_short:
  "length ys < length xs \<Longrightarrow> select_points b xs ys ax ay = Inl IndexError"
  by (induction b xs ys ax ay rule: select_points.induct) auto

text \<open>
  Claim C7. For every series (an ordinate for every abscissa) and every rectangle, the loop
  returns the samples \<open>(x, y)\<close> with \<open>xmin \<le> x \<le> xmax\<close> and \<open>ymin \<le> y \<le> ymax\<close>, all four
  bounds inclusive, and no others; the selection is a subsequence of the series, so the
  original order is kept; and a rectangle that holds no sample gives the empty selection,
  not an error.
\<close>

theorem select_points_inclusive:
  assumes "length xs \<le> length ys"
  shows "select_points b xs ys [] [] =
           Inr (map fst (select_spec b (zip xs ys)), map snd (select_spec b (zip xs ys))) \<and>
         set (select_spec b (zip xs ys)) = {p \<in> set (zip xs ys). in_rect b p} \<and>
         subseq (select_spec b (zip xs ys)) (zip xs ys) \<and>
         ((\<forall>p \<in> set (zip xs ys). \<not> in_rect b p) \<longrightarrow>
            select_points b xs ys [] [] = Inr ([], []))"
  using assms by (auto simp: select_points_acc select_spec_def filter_empty_conv)

text \<open>On the decay series: the rectangle \<open>[1, 3] \<times> [22, 60]\<close> keeps the three samples on
  and inside its edges, and \<open>[0, 5] \<times> [1000, 2000]\<close> keeps none.\<close>

theorem select_points_inclusive_witness:
  "length [0, 1, 2, 3, 4, 5 :: real] \<le> length [100, 60, 37, 22, 13, 8 :: real] \<and>
   select_points (1, 3, 22, 60) [0, 1, 2, 3, 4, 5] [100, 60, 37, 22, 13, 8] [] [] =
     Inr ([1, 2, 3], [60, 37, 22]) \<and>
   select_spec (0, 5, 1000, 2000) (zip [0, 1, 2, 3, 4, 5] [100, 60, 37, 22, 13, 8]) = [] \<and>
   select_points (0, 5, 1000, 2000) [0, 1, 2, 3, 4, 5] [100, 60, 37, 22, 13, 8] [] [] =
     Inr ([], [])"
proof -
  have h: "length [0, 1, 2, 3, 4, 5 :: real] \<le> length [100, 60, 37, 22, 13, 8 :: real]"
    by simp
  have e: "\<forall>p \<in> set (zip [0, 1, 2, 3, 4, 5] [100, 60, 37, 22, 13, 8]).
             \<not> in_rect (0, 5, 1000, 2000) p"
    by (simp add: in_rect_def)
  show ?thesis
    using h e select_points_inclusive [OF h, of "(1, 3, 22, 60)"]
      select_points_inclusive [OF h, of "(0, 5, 1000, 2000)"]
    by (simp add: select_spec_def in_rect_def)
qed

section \<open>What the controllers leave in the window\<close>

lemma publish_window [simp]:
  "range_data (fst (publish s xs ys x_sel popt ier xr yr)) = range_data s"
  "old_range_data (fst (publish s xs ys x_sel popt ier xr yr)) = old_range_data s"
  "series (fst (publish s xs ys x_sel popt ier xr yr)) = series s"
  by (simp_all add: publish_def Let_def my_plot_def split: sum.splits)



lemma fake_fit_curve_unchanged:
  assumes "range_data s \<noteq> None" and "old_range_data s = Some v"
    and "float_bounds v = Inr r"
    and "series s = Some (xs, ys)" and "xs \<noteq> []" and "ys \<noteq> []"
    and "same_int_bounds r (data_extent xs ys)"
  shows "fake_fit_curve cf s = (s, Returned)"
  using assms
  by (cases r) (auto simp: fake_fit_curve_def Let_def split: option.splits prod.splits)

text \<open>The path of each controller up to the publishing step.\<close>

lemma fake_fit_curve_fit:
  assumes "range_data s \<noteq> None" and "old_range_data s = Some v"
    and "float_bounds v = Inr (x0, x1, y0, y1)"
    and "series s = Some (xs, ys)" and "xs \<noteq> []" and "ys \<noteq> []"
    and "\<not> same_int_bounds (x0, x1, y0, y1) (data_extent xs ys)"
    and "select_points (ensure_normal_range x0 x1 y0 y1) xs ys [] [] = Inr (x_sel, y_sel)"
    and "x_sel \<noteq> []"
    and "cf fit_function x_sel y_sel [hd y_sel, last x_sel - hd x_sel, min_list y_sel] =
           Inr (popt, ier)"
  shows "fake_fit_curve cf s =
           publish (s\<lparr>old_range_data := Some (PyList (data_extent xs ys))\<rparr>)
             xs ys x_sel popt ier None None"
  using assms
  by (auto simp: fake_fit_curve_def Let_def split: option.splits prod.splits)

lemma fit_curve_fit:
  assumes "range_data s = Some v" and "old_range_data s \<noteq> Some v"
    and "float_bounds v = Inr (a0, a1, b0, b1)"
    and "ensure_normal_range a0 a1 b0 b1 = (x0, x1, y0, y1)"
    and "series s = Some (xs, ys)"
    and "select_points (x0, x1, y0, y1) xs ys [] [] = Inr (x_sel, y_sel)"
    and "x_sel \<noteq> []"
    and "cf fit_function x_sel y_sel [hd y_sel, last x_sel - hd x_sel] = Inr (popt, ier)"
  shows "fit_curve cf s =
           publish (s\<lparr>old_range_data := Some v\<rparr>) xs ys x_sel popt ier
             (Some (x0, x1)) (Some (y0, y1))"
  using assms
  by (cases v) (auto simp: fit_curve_def Let_def split: option.splits prod.splits)

lemma publish_result:
  assumes "2 \<le> length popt"
  shows "(case publish s xs ys x_sel popt ier xr yr of (s', out) \<Rightarrow>
            (hint_display s' = '''') = (ier \<noteq> 1) \<and>
            result_area_1 s' = Fmt4 (popt ! 1) \<and>
            result_area_2 s' = Fmt4 (popt ! 1 * ln 2) \<and>
            result_area_3 s' = rate_text (popt ! 1) \<and>
            (3 \<le> length popt \<longrightarrow>
               out = Returned \<and>
               graph s' =
                 Some \<lparr>circle_x = xs, circle_y = ys, x_for_line = x_sel,
                       y_for_line = map (model_value (popt ! 0) (popt ! 1) (popt ! 2)) x_sel,
                       x_range = xr, y_range = yr\<rparr>))"
  using assms
  by (auto simp: publish_def Let_def my_plot_def fit_function_def)

text \<open>At a zero time constant the overlay is the offset at every positive abscissa.\<close>

lemma fit_function_zero_tau:
  "fit_function [1, 2, 3] [100, 0, 5] = Inr [Some 5, Some 5, Some 5]"
  by (simp add: fit_function_def model_value_def)

lemma fake_fit_curve_range_data_irrelevant:
  assumes "range_data s \<noteq> None"
  shows "fake_fit_curve cf (s\<lparr>range_data := Some rd'\<rparr>) =
           (case fake_fit_curve cf s of (s', out) \<Rightarrow> (s'\<lparr>range_data := Some rd'\<rparr>, out))"
  using assms
  by (auto simp: fake_fit_curve_def Let_def publish_def my_plot_def
        split: option.splits sum.splits prod.splits)

section \<open>The manual trigger\<close>

text \<open>
  As Claim C1 is written, an empty selection on the manual trigger would leave
  \<^verbatim>\<open>window.old_range_data\<close> as it was. On the decay series, with the rectangle
  \<open>[0, 5] \<times> [0, 100]\<close> stored by an earlier fit and the new rectangle
  \<open>[0, 5] \<times> [1000, 2000]\<close>, the selection is empty, the notice is shown, and the stored
  rectangle is no longer the earlier one.
\<close>

theorem fit_curve_empty_selection_counterexample:
  "select_points (ensure_normal_range 0 5 1000 2000)
       [0, 1, 2, 3, 4, 5] [100, 60, 37, 22, 13, 8] [] [] = Inr ([], []) \<and>
   alerts (fst (fit_curve (const_optimizer [100, 8 / 5, 0] 1)
       (sample_page (Some (JsArray 1 (0, 5, 1000, 2000))) (Some (JsArray 0 (0, 5, 0, 100))))))
     = [''Please select a certain area containing some valid data''] \<and>
   old_range_data (fst (fit_curve (const_optimizer [100, 8 / 5, 0] 1)
       (sample_page (Some (JsArray 1 (0, 5, 1000, 2000))) (Some (JsArray 0 (0, 5, 0, 100))))))
     \<noteq> old_range_data
         (sample_page (Some (JsArray 1 (0, 5, 1000, 2000))) (Some (JsArray 0 (0, 5, 0, 100))))"
  by (simp add: fit_curve_def sample_page_def ensure_normal_range_def alert_def)

text \<open>
  Claim C1, amended. For every invocation of \<open>fit_curve\<close> in which the rectangle differs
  from the stored previous one and the filtered point set is empty, the controller shows
  the notice "Please select a certain area containing some valid data" and returns; the
  hint, the three result areas, the graph and the series are as before the call, and the
  stored previous rectangle has been overwritten with the current rectangle (line 192 runs
  before the filter). The optimizer is not consulted.
\<close>

theorem fit_curve_empty_selection:
  assumes "range_data s = Some v" and "old_range_data s \<noteq> Some v"
    and "float_bounds v = Inr (a0, a1, b0, b1)"
    and "series s = Some (xs, ys)"
    and "select_points (ensure_normal_range a0 a1 b0 b1) xs ys [] [] = Inr ([], [])"
  shows "fit_curve cf s =
           (alert ''Please select a certain area containing some valid data''
              (s\<lparr>old_range_data := Some v\<rparr>), Returned)"
  using assms
  by (cases v) (auto simp: fit_curve_def Let_def split: option.splits prod.splits)

theorem fit_curve_empty_selection_witness:
  "fit_curve (const_optimizer [100, 8 / 5, 0] 1)
     (sample_page (Some (JsArray 1 (0, 5, 1000, 2000))) (Some (JsArray 0 (0, 5, 0, 100)))) =
   (alert ''Please select a certain area containing some valid data''
      ((sample_page (Some (JsArray 1 (0, 5, 1000, 2000))) (Some (JsArray 0 (0, 5, 0, 100))))
         \<lparr>old_range_data := Some (JsArray 1 (0, 5, 1000, 2000))\<rparr>), Returned)"
proof -
  let ?s = "sample_page (Some (JsArray 1 (0, 5, 1000, 2000))) (Some (JsArray 0 (0, 5, 0, 100)))"
  have h1: "range_data ?s = Some (JsArray 1 (0, 5, 1000, 2000))"
    by (simp add: sample_page_def)
  have h2: "old_range_data ?s \<noteq> Some (JsArray 1 (0, 5, 1000, 2000))"
    by (simp add: sample_page_def)
  have h3: "float_bounds (JsArray 1 (0, 5, 1000, 2000)) = Inr (0, 5, 1000, 2000)"
    by simp
  have h4: "series ?s = Some ([0, 1, 2, 3, 4, 5], [100, 60, 37, 22, 13, 8])"
    by (simp add: sample_page_def)
  have h5: "select_points (ensure_normal_range 0 5 1000 2000)
              [0, 1, 2, 3, 4, 5] [100, 60, 37, 22, 13, 8] [] [] = Inr ([], [])"
    by (simp add: ensure_normal_range_def)
  show ?thesis by (rule fit_curve_empty_selection [OF h1 h2 h3 h4 h5])
qed



text \<open>
  Claim C6 asks that the model function of the manual trigger reads the two parameters
  \<open>A\<close> and \<open>tau\<close> only. \<open>fit_function\<close> reads \<^verbatim>\<open>p[2]\<close> on every call: on the two-entry
  parameter list that \<open>fit_curve\<close> builds as its initial guess it raises
  \<^verbatim>\<open>IndexError\<close>, and a manual fit of the whole decay series with an optimizer that
  evaluates the model at the initial guess ends in that error, with nothing published.
\<close>

theorem fit_function_reads_offset:
  "fit_function x [a, tau] = Inl IndexError \<and>
   fit_curve probe_optimizer (sample_page (Some (JsArray 1 (0, 5, 0, 100))) None) =
     ((sample_page (Some (JsArray 1 (0, 5, 0, 100))) None)
        \<lparr>old_range_data := Some (JsArray 1 (0, 5, 0, 100))\<rparr>, Raised IndexError)"
  by (simp add: fit_function_def fit_curve_def sample_page_def ensure_normal_range_def
        probe_optimizer_def)

section \<open>The reset trigger\<close>

text \<open>
  As Claim C2 is written, an empty selection on the reset trigger would leave
  \<^verbatim>\<open>window.old_range_data\<close> as it was. On the decay series with the rectangle
  \<open>[0, 5] \<times> [1000, 2000]\<close> stored, the change check is passed (1000 against the first
  ordinate 100), the selection is empty, and the stored value has become the data extent.
\<close>

theorem fake_fit_curve_empty_selection_counterexample:
  "select_points (ensure_normal_range 0 5 1000 2000)
       [0, 1, 2, 3, 4, 5] [100, 60, 37, 22, 13, 8] [] [] = Inr ([], []) \<and>
   old_range_data (fst (fake_fit_curve (const_optimizer [100, 8 / 5, 0] 1)
       (sample_page (Some (JsArray 1 (0, 5, 0, 100))) (Some (JsArray 0 (0, 5, 1000, 2000))))))
     = Some (PyList (0, 5, 100, 8)) \<and>
   old_range_data (fst (fake_fit_curve (const_optimizer [100, 8 / 5, 0] 1)
       (sample_page (Some (JsArray 1 (0, 5, 0, 100))) (Some (JsArray 0 (0, 5, 1000, 2000))))))
     \<noteq> old_range_data
         (sample_page (Some (JsArray 1 (0, 5, 0, 100))) (Some (JsArray 0 (0, 5, 1000, 2000))))"
  by (simp add: fake_fit_curve_def sample_page_def ensure_normal_range_def
        same_int_bounds_def data_extent_def py_int_def)

text \<open>
  Claim C2, amended. For every invocation of \<open>fake_fit_curve\<close> that passes the change
  check and whose filtered point set is empty, the controller returns silently: no notice
  is shown, the optimizer is not consulted, the hint, the result areas and the graph are as
  before, and the only change is that the stored previous rectangle has been overwritten
  with the data extent \<^verbatim>\<open>[xList[0], xList[-1], yList[0], yList[-1]]\<close> (line 144 runs before
  the filter).
\<close>

theorem fake_fit_curve_empty_selection:
  assumes "range_data s \<noteq> None" and "old_range_data s = Some v"
    and "float_bounds v = Inr (x0, x1, y0, y1)"
    and "series s = Some (xs, ys)" and "xs \<noteq> []" and "ys \<noteq> []"
    and "\<not> same_int_bounds (x0, x1, y0, y1) (data_extent xs ys)"
    and "select_points (ensure_normal_range x0 x1 y0 y1) xs ys [] [] = Inr ([], [])"
  shows "fake_fit_curve cf s =
           (s\<lparr>old_range_data := Some (PyList (data_extent xs ys))\<rparr>, Returned)"
  using assms
  by (auto simp: fake_fit_curve_def Let_def split: option.splits prod.splits)

theorem fake_fit_curve_empty_selection_witness:
  "fake_fit_curve (const_optimizer [100, 8 / 5, 0] 1)
     (sample_page (Some (JsArray 1 (0, 5, 0, 100))) (Some (JsArray 0 (0, 5, 1000, 2000)))) =
   ((sample_page (Some (JsArray 1 (0, 5, 0, 100))) (Some (JsArray 0 (0, 5, 1000, 2000))))
      \<lparr>old_range_data :=
         Some (PyList (data_extent [0, 1, 2, 3, 4, 5] [100, 60, 37, 22, 13, 8]))\<rparr>, Returned)"
proof -
  let ?s = "sample_page (Some (JsArray 1 (0, 5, 0, 100))) (Some (JsArray 0 (0, 5, 1000, 2000)))"
  have h1: "range_data ?s \<noteq> None"
    by (simp add: sample_page_def)
  have h2: "old_range_data ?s = Some (JsArray 0 (0, 5, 1000, 2000))"
    by (simp add: sample_page_def)
  have h3: "float_bounds (JsArray 0 (0, 5, 1000, 2000)) = Inr (0, 5, 1000, 2000)"
    by simp
  have h4: "series ?s = Some ([0, 1, 2, 3, 4, 5], [100, 60, 37, 22, 13, 8])"
    by (simp add: sample_page_def)
  have h5: "[0, 1, 2, 3, 4, 5 :: real] \<noteq> []" and h6: "[100, 60, 37, 22, 13, 8 :: real] \<noteq> []"
    by simp_all
  have h7: "\<not> same_int_bounds (0, 5, 1000, 2000)
               (data_extent [0, 1, 2, 3, 4, 5] [100, 60, 37, 22, 13, 8])"
    by (simp add: same_int_bounds_def data_extent_def py_int_def)
  have h8: "select_points (ensure_normal_range 0 5 1000 2000)
              [0, 1, 2, 3, 4, 5] [100, 60, 37, 22, 13, 8] [] [] = Inr ([], [])"
    by (simp add: ensure_normal_range_def)
  show ?thesis by (rule fake_fit_curve_empty_selection [OF h1 h2 h3 h4 h5 h6 h7 h8])
qed

text \<open>
  As Claim C3 is written, the reset trigger would compare the stored previous rectangle
  with the newly observed selection rectangle, so that \<open>(10.1, 50.2, 0, 100)\<close> stored and
  \<open>(10.4, 50.9, 0, 100)\<close> observed would be a no-op. With these two values in
  \<^verbatim>\<open>window.old_range_data\<close> and \<^verbatim>\<open>window.range_data\<close> and the decay series loaded, the four
  bounds agree after truncation, and yet the invocation is not a no-op: it passes the
  change check (10 against the first abscissa 0) and stores the data extent.
\<close>

theorem fake_fit_curve_integer_comparison_counterexample:
  "same_int_bounds (101 / 10, 251 / 5, 0, 100) (52 / 5, 509 / 10, 0, 100) \<and>
   old_range_data (fst (fake_fit_curve (const_optimizer [100, 8 / 5, 0] 1)
       (sample_page (Some (JsArray 1 (52 / 5, 509 / 10, 0, 100)))
          (Some (JsArray 0 (101 / 10, 251 / 5, 0, 100))))))
     = Some (PyList (0, 5, 100, 8)) \<and>
   fake_fit_curve (const_optimizer [100, 8 / 5, 0] 1)
       (sample_page (Some (JsArray 1 (52 / 5, 509 / 10, 0, 100)))
          (Some (JsArray 0 (101 / 10, 251 / 5, 0, 100))))
     \<noteq> (sample_page (Some (JsArray 1 (52 / 5, 509 / 10, 0, 100)))
          (Some (JsArray 0 (101 / 10, 251 / 5, 0, 100))), Returned)"
proof -
  let ?s = "sample_page (Some (JsArray 1 (52 / 5, 509 / 10, 0, 100)))
              (Some (JsArray 0 (101 / 10, 251 / 5, 0, 100)))"
  let ?cf = "const_optimizer [100, 8 / 5, 0] 1"
  have a: "same_int_bounds (101 / 10, 251 / 5, 0, 100) (52 / 5, 509 / 10, 0, 100)"
    by (simp add: same_int_bounds_def py_int_def)
  have b: "old_range_data (fst (fake_fit_curve ?cf ?s)) = Some (PyList (0, 5, 100, 8))"
    by (simp add: fake_fit_curve_def sample_page_def ensure_normal_range_def
          same_int_bounds_def data_extent_def py_int_def)
  have c: "old_range_data ?s \<noteq> Some (PyList (0, 5, 100, 8))"
    by (simp add: sample_page_def)
  have "fake_fit_curve ?cf ?s \<noteq> (?s, Returned)"
  proof
    assume "fake_fit_curve ?cf ?s = (?s, Returned)"
    then have "old_range_data (fst (fake_fit_curve ?cf ?s)) = old_range_data ?s" by simp
    with b c show False by simp
  qed
  with a b show ?thesis by blast
qed

text \<open>
  Claim C3, amended. The reset trigger decides whether a refit is needed by comparing the
  stored previous rectangle with the data extent
  \<^verbatim>\<open>(xList[0], xList[-1], yList[0], yList[-1])\<close>, not with the selection rectangle in
  \<^verbatim>\<open>window.range_data\<close>, after \<^verbatim>\<open>int()\<close> on each of the four bounds: when the four
  truncations agree the invocation changes nothing and consults no optimizer. So of two
  successive reset invocations over data whose extents have the same integer part on every
  bound (they differ below the integer unit only), the second is a no-op, whatever the
  first did and whatever selection rectangle arrived in between: the state is as it was,
  nothing is filtered, fitted or published. Replacing the selection rectangle by another
  changes nothing in the result of an invocation but that value.
\<close>

theorem fake_fit_curve_integer_comparison:
  assumes "range_data s \<noteq> None"
    and "series s = Some (xs, ys)" and "xs \<noteq> []" and "ys \<noteq> []"
  shows "(old_range_data s = Some v \<and> float_bounds v = Inr r \<and>
          same_int_bounds r (data_extent xs ys) \<longrightarrow>
            fake_fit_curve cf s = (s, Returned)) \<and>
         (old_range_data s \<noteq> Some PyNone \<and> xs' \<noteq> [] \<and> ys' \<noteq> [] \<and>
          same_int_bounds (data_extent xs ys) (data_extent xs' ys') \<longrightarrow>
            fake_fit_curve cf'
              ((fst (fake_fit_curve cf s))\<lparr>series := Some (xs', ys'), range_data := Some rd'\<rparr>) =
              ((fst (fake_fit_curve cf s))\<lparr>series := Some (xs', ys'), range_data := Some rd'\<rparr>,
               Returned)) \<and>
         fake_fit_curve cf (s\<lparr>range_data := Some rd'\<rparr>) =
           (case fake_fit_curve cf s of (s', out) \<Rightarrow> (s'\<lparr>range_data := Some rd'\<rparr>, out))"
proof (intro conjI impI)
  assume "old_range_data s = Some v \<and> float_bounds v = Inr r \<and>
          same_int_bounds r (data_extent xs ys)"
  then show "fake_fit_curve cf s = (s, Returned)"
    using fake_fit_curve_unchanged [OF assms(1) _ _ assms(2,3,4)] by blast
next
  show "fake_fit_curve cf (s\<lparr>range_data := Some rd'\<rparr>) =
          (case fake_fit_curve cf s of (s', out) \<Rightarrow> (s'\<lparr>range_data := Some rd'\<rparr>, out))"
    by (rule fake_fit_curve_range_data_irrelevant [OF assms(1)])
next
  assume a: "old_range_data s \<noteq> Some PyNone \<and> xs' \<noteq> [] \<and> ys' \<noteq> [] \<and>
             same_int_bounds (data_extent xs ys) (data_extent xs' ys')"
  let ?t = "(fst (fake_fit_curve cf s))\<lparr>series := Some (xs', ys'), range_data := Some rd'\<rparr>"
  show "fake_fit_curve cf' ?t = (?t, Returned)"
  proof (cases "old_range_data s")
    case None
    then have "fake_fit_curve cf s = (s, Returned)"
      using assms(1) by (auto simp: fake_fit_curve_def)
    then show ?thesis
      using None by (auto simp: fake_fit_curve_def)
  next
    case (Some v0)
    with a obtain r0 where r0: "float_bounds v0 = Inr r0"
      by (cases v0) auto
    show ?thesis
    proof (cases "same_int_bounds r0 (data_extent xs ys)")
      case True
      have "fake_fit_curve cf s = (s, Returned)"
        by (rule fake_fit_curve_unchanged [OF assms(1) Some r0 assms(2,3,4) True])
      then have t: "?t = s\<lparr>series := Some (xs', ys'), range_data := Some rd'\<rparr>" by simp
      have "same_int_bounds r0 (data_extent xs' ys')"
        using True a by (auto simp: same_int_bounds_def split: prod.splits)
      then show ?thesis
        unfolding t using a Some r0
        by (intro fake_fit_curve_unchanged [where v = v0 and r = r0]) auto
    next
      case False
      have old: "old_range_data (fst (fake_fit_curve cf s)) =
                   Some (PyList (data_extent xs ys))"
        using assms Some r0 False
        by (cases r0) (auto simp: fake_fit_curve_def Let_def alert_def
              split: option.splits sum.splits prod.splits)
      show ?thesis
        using old a
        by (intro fake_fit_curve_unchanged
              [where v = "PyList (data_extent xs ys)" and r = "data_extent xs ys"]) auto
    qed
  qed
qed

text \<open>With \<open>(10.1, 50.2, 0, 100)\<close> stored and data of extent \<open>(10.4, 50.9, 0, 100)\<close> loaded,
  the reset is a no-op; and so is the second of two successive reset invocations over data
  whose extent moves from the first rectangle to the second, with a new selection
  rectangle in between.\<close>

theorem fake_fit_curve_integer_comparison_witness:
  "fake_fit_curve probe_optimizer
     ((sample_page (Some (JsArray 1 (0, 1, 0, 1))) (Some (JsArray 0 (101 / 10, 251 / 5, 0, 100))))
        \<lparr>series := Some ([52 / 5, 509 / 10], [0, 100])\<rparr>) =
   ((sample_page (Some (JsArray 1 (0, 1, 0, 1))) (Some (JsArray 0 (101 / 10, 251 / 5, 0, 100))))
        \<lparr>series := Some ([52 / 5, 509 / 10], [0, 100])\<rparr>, Returned) \<and>
   fake_fit_curve probe_optimizer
     ((fst (fake_fit_curve (const_optimizer [100, 8 / 5, 0] 1)
         ((sample_page (Some (JsArray 1 (0, 1, 0, 1))) (Some (JsArray 0 (1, 3, 0, 100))))
            \<lparr>series := Some ([101 / 10, 251 / 5], [0, 100])\<rparr>)))
        \<lparr>series := Some ([52 / 5, 509 / 10], [0, 100]),
          range_data := Some (JsArray 2 (20, 40, 0, 50))\<rparr>) =
   ((fst (fake_fit_curve (const_optimizer [100, 8 / 5, 0] 1)
         ((sample_page (Some (JsArray 1 (0, 1, 0, 1))) (Some (JsArray 0 (1, 3, 0, 100))))
            \<lparr>series := Some ([101 / 10, 251 / 5], [0, 100])\<rparr>)))
        \<lparr>series := Some ([52 / 5, 509 / 10], [0, 100]),
          range_data := Some (JsArray 2 (20, 40, 0, 50))\<rparr>, Returned)"
proof -
  let ?a = "(sample_page (Some (JsArray 1 (0, 1, 0, 1)))
               (Some (JsArray 0 (101 / 10, 251 / 5, 0, 100))))
              \<lparr>series := Some ([52 / 5, 509 / 10], [0, 100])\<rparr>"
  let ?b = "(sample_page (Some (JsArray 1 (0, 1, 0, 1))) (Some (JsArray 0 (1, 3, 0, 100))))
              \<lparr>series := Some ([101 / 10, 251 / 5], [0, 100])\<rparr>"
  have a1: "range_data ?a \<noteq> None" and b1: "range_data ?b \<noteq> None"
    by (simp_all add: sample_page_def)
  have a2: "series ?a = Some ([52 / 5, 509 / 10], [0, 100])"
    and b2: "series ?b = Some ([101 / 10, 251 / 5], [0, 100])"
    by simp_all
  have n1: "[52 / 5, 509 / 10 :: real] \<noteq> []" and n2: "[0, 100 :: real] \<noteq> []"
    and n3: "[101 / 10, 251 / 5 :: real] \<noteq> []"
    by simp_all
  have a3: "old_range_data ?a = Some (JsArray 0 (101 / 10, 251 / 5, 0, 100)) \<and>
            float_bounds (JsArray 0 (101 / 10, 251 / 5, 0, 100)) =
              Inr (101 / 10, 251 / 5, 0, 100) \<and>
            same_int_bounds (101 / 10, 251 / 5, 0, 100)
              (data_extent [52 / 5, 509 / 10] [0, 100])"
    by (simp add: sample_page_def same_int_bounds_def data_extent_def py_int_def)
  have b3: "old_range_data ?b \<noteq> Some PyNone \<and> [52 / 5, 509 / 10 :: real] \<noteq> [] \<and>
            [0, 100 :: real] \<noteq> [] \<and>
            same_int_bounds (data_extent [101 / 10, 251 / 5] [0, 100])
              (data_extent [52 / 5, 509 / 10] [0, 100])"
    by (simp add: sample_page_def same_int_bounds_def data_extent_def py_int_def)
  show ?thesis
    using a3 b3
      fake_fit_curve_integer_comparison [OF a1 a2 n1 n2,
        where v = "JsArray 0 (101 / 10, 251 / 5, 0, 100)"
          and r = "(101 / 10, 251 / 5, 0, 100)" and cf = probe_optimizer]
      fake_fit_curve_integer_comparison [OF b1 b2 n3 n2,
        where cf = "const_optimizer [100, 8 / 5, 0] 1"
          and xs' = "[52 / 5, 509 / 10]" and ys' = "[0, 100]" and cf' = probe_optimizer
          and rd' = "JsArray 2 (20, 40, 0, 50)"]
    by blast
qed

text \<open>
  Claim C4. In every invocation of \<open>fake_fit_curve\<close> that proceeds past the change check
  (over a series with an ordinate for every abscissa), the value stored as the new previous
  rectangle is the data extent \<^verbatim>\<open>(xList[0], xList[-1], yList[0], yList[-1])\<close>; the points
  that are fitted and drawn are those selected by the normalisation of the rectangle that
  was stored before the call; and \<^verbatim>\<open>window.range_data\<close> is only tested for existence:
  replacing its value changes nothing in the result but that value.
\<close>

theorem fake_fit_curve_selects_from_stored_rectangle:
  assumes "range_data s \<noteq> None" and "old_range_data s = Some v"
    and "float_bounds v = Inr (x0, x1, y0, y1)"
    and "series s = Some (xs, ys)" and "xs \<noteq> []" and "ys \<noteq> []"
    and "length xs \<le> length ys"
    and "\<not> same_int_bounds (x0, x1, y0, y1) (data_extent xs ys)"
  shows "old_range_data (fst (fake_fit_curve cf s)) = Some (PyList (data_extent xs ys)) \<and>
         fake_fit_curve cf s =
           (let s1 = s\<lparr>old_range_data := Some (PyList (data_extent xs ys))\<rparr>;
                sel = select_spec (ensure_normal_range x0 x1 y0 y1) (zip xs ys);
                x_sel = map fst sel; y_sel = map snd sel
            in if sel = [] then (s1, Returned)
               else (case cf fit_function x_sel y_sel
                            [hd y_sel, last x_sel - hd x_sel, min_list y_sel] of
                       Inl e \<Rightarrow> (s1, Raised e)
                     | Inr (popt, ier) \<Rightarrow> publish s1 xs ys x_sel popt ier None None)) \<and>
         fake_fit_curve cf (s\<lparr>range_data := Some rd'\<rparr>) =
           (case fake_fit_curve cf s of (s', out) \<Rightarrow> (s'\<lparr>range_data := Some rd'\<rparr>, out))"
proof -
  let ?s1 = "s\<lparr>old_range_data := Some (PyList (data_extent xs ys))\<rparr>"
  let ?sel = "select_spec (ensure_normal_range x0 x1 y0 y1) (zip xs ys)"
  have sp: "select_points (ensure_normal_range x0 x1 y0 y1) xs ys [] [] =
              Inr (map fst ?sel, map snd ?sel)"
    using select_points_acc [OF assms(7), of "ensure_normal_range x0 x1 y0 y1" "[]" "[]"]
    by simp
  have eq: "fake_fit_curve cf s =
           (let s1 = ?s1; sel = ?sel; x_sel = map fst sel; y_sel = map snd sel
            in if sel = [] then (s1, Returned)
               else (case cf fit_function x_sel y_sel
                            [hd y_sel, last x_sel - hd x_sel, min_list y_sel] of
                       Inl e \<Rightarrow> (s1, Raised e)
                     | Inr (popt, ier) \<Rightarrow> publish s1 xs ys x_sel popt ier None None))"
    using assms(1-6,8) sp
    by (auto simp: fake_fit_curve_def Let_def split: option.splits sum.splits prod.splits)
  have old: "old_range_data (fst (fake_fit_curve cf s)) = Some (PyList (data_extent xs ys))"
    unfolding eq by (simp add: Let_def split: sum.splits prod.splits)
  show ?thesis
    using old eq fake_fit_curve_range_data_irrelevant [OF assms(1)] by blast
qed

text \<open>On the decay series with the corner-swapped rectangle \<open>(3, 1, 100, 0)\<close> stored and
  the whole view in \<^verbatim>\<open>window.range_data\<close>: the extent \<open>(0, 5, 100, 8)\<close> is stored, and the
  overlay is drawn over the abscissae 1, 2, 3 of the stored rectangle, not over the view.\<close>

theorem fake_fit_curve_selects_from_stored_rectangle_witness:
  "old_range_data (fst (fake_fit_curve (const_optimizer [100, 8 / 5, 0] 1)
      (sample_page (Some (JsArray 1 (0, 5, 0, 100))) (Some (JsArray 0 (3, 1, 100, 0))))))
     = Some (PyList (0, 5, 100, 8)) \<and>
   map_option x_for_line (graph (fst (fake_fit_curve (const_optimizer [100, 8 / 5, 0] 1)
      (sample_page (Some (JsArray 1 (0, 5, 0, 100))) (Some (JsArray 0 (3, 1, 100, 0)))))))
     = Some [1, 2, 3]"
proof -
  let ?s = "sample_page (Some (JsArray 1 (0, 5, 0, 100))) (Some (JsArray 0 (3, 1, 100, 0)))"
  have h1: "range_data ?s \<noteq> None"
    by (simp add: sample_page_def)
  have h2: "old_range_data ?s = Some (JsArray 0 (3, 1, 100, 0))"
    by (simp add: sample_page_def)
  have h3: "float_bounds (JsArray 0 (3, 1, 100, 0)) = Inr (3, 1, 100, 0)"
    by simp
  have h4: "series ?s = Some ([0, 1, 2, 3, 4, 5], [100, 60, 37, 22, 13, 8])"
    by (simp add: sample_page_def)
  have h5: "[0, 1, 2, 3, 4, 5 :: real] \<noteq> []" and h6: "[100, 60, 37, 22, 13, 8 :: real] \<noteq> []"
    by simp_all
  have h7: "length [0, 1, 2, 3, 4, 5 :: real] \<le> length [100, 60, 37, 22, 13, 8 :: real]"
    by simp
  have h8: "\<not> same_int_bounds (3, 1, 100, 0)
               (data_extent [0, 1, 2, 3, 4, 5] [100, 60, 37, 22, 13, 8])"
    by (simp add: same_int_bounds_def data_extent_def py_int_def)
  show ?thesis
    using fake_fit_curve_selects_from_stored_rectangle [OF h1 h2 h3 h4 h5 h6 h7 h8,
        of "const_optimizer [100, 8 / 5, 0] 1" "JsArray 1 (0, 5, 0, 100)"]
    by (simp add: data_extent_def select_spec_def in_rect_def ensure_normal_range_def
          const_optimizer_def publish_def fit_function_def my_plot_def Let_def)
qed

section \<open>Publication of a fit\<close>



text \<open>
  Claim C10. For every fit that reaches the publishing step, from either trigger, the
  first result area receives \<^verbatim>\<open>"%.4f" % tau\<close> and the second \<^verbatim>\<open>"%.4f" % (tau * ln 2)\<close> for
  the same \<open>tau\<close>, the second entry of the optimizer's parameters: the published half-life
  is the published time constant times \<open>ln 2\<close>, both in the four-decimal format.
\<close>

theorem half_life_is_tau_times_ln2:
  assumes "range_data s \<noteq> None" and "old_range_data s = Some v"
    and "float_bounds v = Inr (x0, x1, y0, y1)"
    and "series s = Some (xs, ys)" and "xs \<noteq> []" and "ys \<noteq> []"
    and "\<not> same_int_bounds (x0, x1, y0, y1) (data_extent xs ys)"
    and "select_points (ensure_normal_range x0 x1 y0 y1) xs ys [] [] = Inr (x_sel, y_sel)"
    and "x_sel \<noteq> []"
    and "cf fit_function x_sel y_sel [hd y_sel, last x_sel - hd x_sel, min_list y_sel] =
           Inr (popt, ier)"
    and "2 \<le> length popt"
    and "range_data t = Some w" and "old_range_data t \<noteq> Some w"
    and "float_bounds w = Inr (a0, a1, b0, b1)"
    and "ensure_normal_range a0 a1 b0 b1 = (c0, c1, d0, d1)"
    and "series t = Some (us, vs)"
    and "select_points (c0, c1, d0, d1) us vs [] [] = Inr (u_sel, v_sel)"
    and "u_sel \<noteq> []"
    and "cg fit_function u_sel v_sel [hd v_sel, last u_sel - hd u_sel] = Inr (qopt, jer)"
    and "2 \<le> length qopt"
  shows "result_area_1 (fst (fake_fit_curve cf s)) = Fmt4 (popt ! 1) \<and>
         result_area_2 (fst (fake_fit_curve cf s)) = Fmt4 (popt ! 1 * ln 2) \<and>
         result_area_1 (fst (fit_curve cg t)) = Fmt4 (qopt ! 1) \<and>
         result_area_2 (fst (fit_curve cg t)) = Fmt4 (qopt ! 1 * ln 2)"
proof -
  have reset: "fake_fit_curve cf s =
                 publish (s\<lparr>old_range_data := Some (PyList (data_extent xs ys))\<rparr>)
                   xs ys x_sel popt ier None None"
    by (rule fake_fit_curve_fit [where cf = cf, OF assms(1-10)])
  have manual: "fit_curve cg t =
                  publish (t\<lparr>old_range_data := Some w\<rparr>) us vs u_sel qopt jer
                    (Some (c0, c1)) (Some (d0, d1))"
    by (rule fit_curve_fit [where cf = cg, OF assms(12-19)])
  show ?thesis
    unfolding reset manual
    using publish_result [OF assms(11), where xs = xs and ys = ys and x_sel = x_sel
          and ier = ier and xr = None and yr = None
          and s = "s\<lparr>old_range_data := Some (PyList (data_extent xs ys))\<rparr>"]
      publish_result [OF assms(20), where xs = us and ys = vs and x_sel = u_sel
          and ier = jer and xr = "Some (c0, c1)" and yr = "Some (d0, d1)"
          and s = "t\<lparr>old_range_data := Some w\<rparr>"]
    by (simp add: case_prod_unfold)
qed

theorem half_life_is_tau_times_ln2_witness:
  "result_area_1 (fst (fake_fit_curve (const_optimizer [100, 8 / 5, 0] 1)
      (sample_page (Some (JsArray 1 (0, 5, 0, 100))) (Some (JsArray 0 (3, 1, 100, 0))))))
     = Fmt4 (8 / 5) \<and>
   result_area_2 (fst (fake_fit_curve (const_optimizer [100, 8 / 5, 0] 1)
      (sample_page (Some (JsArray 1 (0, 5, 0, 100))) (Some (JsArray 0 (3, 1, 100, 0))))))
     = Fmt4 (8 / 5 * ln 2) \<and>
   result_area_1 (fst (fit_curve (const_optimizer [90, 2] 1)
      (sample_page (Some (JsArray 1 (3, 1, 100, 0))) None))) = Fmt4 2 \<and>
   result_area_2 (fst (fit_curve (const_optimizer [90, 2] 1)
      (sample_page (Some (JsArray 1 (3, 1, 100, 0))) None))) = Fmt4 (2 * ln 2)"
proof -
  let ?s = "sample_page (Some (JsArray 1 (0, 5, 0, 100))) (Some (JsArray 0 (3, 1, 100, 0)))"
  let ?t = "sample_page (Some (JsArray 1 (3, 1, 100, 0))) None"
  let ?cf = "const_optimizer [100, 8 / 5, 0] 1"
  let ?cg = "const_optimizer [90, 2] 1"
  have h1: "range_data ?s \<noteq> None"
    by (simp add: sample_page_def)
  have h2: "old_range_data ?s = Some (JsArray 0 (3, 1, 100, 0))"
    by (simp add: sample_page_def)
  have h3: "float_bounds (JsArray 0 (3, 1, 100, 0)) = Inr (3, 1, 100, 0)"
    by simp
  have h4: "series ?s = Some ([0, 1, 2, 3, 4, 5], [100, 60, 37, 22, 13, 8])"
    by (simp add: sample_page_def)
  have h5: "[0, 1, 2, 3, 4, 5 :: real] \<noteq> []" and h6: "[100, 60, 37, 22, 13, 8 :: real] \<noteq> []"
    by simp_all
  have h7: "\<not> same_int_bounds (3, 1, 100, 0)
               (data_extent [0, 1, 2, 3, 4, 5] [100, 60, 37, 22, 13, 8])"
    by (simp add: same_int_bounds_def data_extent_def py_int_def)
  have h8: "select_points (ensure_normal_range 3 1 100 0)
              [0, 1, 2, 3, 4, 5] [100, 60, 37, 22, 13, 8] [] [] = Inr ([1, 2, 3], [60, 37, 22])"
    by (simp add: ensure_normal_range_def)
  have h9: "[1, 2, 3 :: real] \<noteq> []"
    by simp
  have h10: "?cf fit_function [1, 2, 3] [60, 37, 22]
               [hd [60, 37, 22], last [1, 2, 3] - hd [1, 2, 3], min_list [60, 37, 22]] =
             Inr ([100, 8 / 5, 0], 1)"
    by (simp add: const_optimizer_def)
  have h11: "2 \<le> length [100, 8 / 5, 0 :: real]"
    by simp
  have m1: "range_data ?t = Some (JsArray 1 (3, 1, 100, 0))"
    by (simp add: sample_page_def)
  have m2: "old_range_data ?t \<noteq> Some (JsArray 1 (3, 1, 100, 0))"
    by (simp add: sample_page_def)
  have m3: "float_bounds (JsArray 1 (3, 1, 100, 0)) = Inr (3, 1, 100, 0)"
    by simp
  have m4: "ensure_normal_range 3 1 100 0 = (1, 3, 0, 100)"
    by (simp add: ensure_normal_range_def)
  have m5: "series ?t = Some ([0, 1, 2, 3, 4, 5], [100, 60, 37, 22, 13, 8])"
    by (simp add: sample_page_def)
  have m6: "select_points (1, 3, 0, 100)
              [0, 1, 2, 3, 4, 5] [100, 60, 37, 22, 13, 8] [] [] = Inr ([1, 2, 3], [60, 37, 22])"
    by simp
  have m8: "?cg fit_function [1, 2, 3] [60, 37, 22]
              [hd [60, 37, 22], last [1, 2, 3] - hd [1, 2, 3]] = Inr ([90, 2], 1)"
    by (simp add: const_optimizer_def)
  have m9: "2 \<le> length [90, 2 :: real]"
    by simp
  show ?thesis
    using half_life_is_tau_times_ln2
      [where cf = "?cf" and cg = "?cg",
       OF h1 h2 h3 h4 h5 h6 h7 h8 h9 h10 h11 m1 m2 m3 m4 m5 m6 h9 m8 m9]
    by simp
qed

end
